theory Spec2Isabelle
  imports Main "HOL-Library.Multiset"
begin

section \<open>Data model\<close>

text \<open>
  Documents of the two collections the routers work on. Object ids and creation times
  are natural numbers. What a handler hands to the store as an id is modelled as the
  store casts it where the handler answers the cast error itself: see \<open>id_param\<close> for
  the path segment of \<open>PUT /:id/status\<close> and \<open>id_arg\<close> for \<open>GET /order/:orderId\<close>.
\<close>

type_synonym object_id = nat
type_synonym timestamp = nat

record order_item =
  food :: string
  quantity :: nat
  price :: int

record order =
  o_id :: object_id
  o_user :: object_id
  o_items :: "order_item list"
  o_totalPrice :: "int option"
  o_paymentId :: "string option"
  o_status :: string
  o_createdAt :: timestamp

record user =
  u_id :: object_id
  u_email :: string
  u_password :: string
  u_name :: string
  u_address :: string
  u_isAdmin :: bool
  u_isBlocked :: bool

text \<open>The store: the two collections, each in its natural (insertion) order.\<close>

record db =
  users :: "user list"
  orders :: "order list"

text \<open>
  The payload of the signed token, as \<open>generateTokenResponse\<close> of user.router.js signs it
  (\<open>id\<close>, \<open>email\<close>, \<open>isAdmin\<close>); the \<open>auth\<close> middleware leaves it in \<open>req.user\<close>.
\<close>

record claims =
  c_id :: object_id
  c_email :: string
  c_isAdmin :: bool

record ('p, 'b) request =
  req_user :: claims
  req_params :: 'p
  req_body :: 'b

text \<open>
  Request bodies. A field that a JSON body may leave out is an option. The body of
  \<open>POST /create\<close> has a field for every key of an order document, since the handler
  passes all keys of the body on to the constructor.
\<close>

record order_body =
  b_id :: "object_id option"
  b_items :: "order_item list option"
  b_user :: "object_id option"
  b_status :: "string option"
  b_paymentId :: "string option"
  b_totalPrice :: "int option"
  b_createdAt :: "timestamp option"

record pay_body =
  pb_paymentId :: string

record status_body =
  isPaid :: bool
  isExpired :: bool

record register_body =
  rb_name :: string
  rb_email :: string
  rb_password :: string
  rb_address :: string

record token_response =
  t_id :: object_id
  t_email :: string
  t_name :: string
  t_address :: string
  t_isAdmin :: bool
  t_token :: claims

section \<open>Responses and errors\<close>

datatype js_error = TypeError | CastError | ValidationError | DuplicateKey

datatype payload =
    Empty
  | Text string
  | Num nat
  | OrderDoc order
  | OrderDocs "order list"
  | IdDoc object_id
  | ErrorMsg string
  | Success string order
  | Token token_response

text \<open>
  One call on \<open>res\<close>: \<open>res.send(x)\<close>, \<open>res.status(n).send(x)\<close>, or an exception that
  leaves the handler (express then answers with a server error).
\<close>

datatype response =
    Send payload
  | StatusSend nat payload
  | Thrown js_error

text \<open>
  constants/httpStatus.js is not among the sources; the two codes have the values the
  routers' API comments give for these answers.
\<close>

definition BAD_REQUEST :: nat where
  "BAD_REQUEST = 400"

definition UNAUTHORIZED :: nat where
  "UNAUTHORIZED = 401"

text \<open>
  Modelled from the spec: constants/orderStatus.js is not among the sources. The spec
  lists the values \<open>NEW\<close>, \<open>PAID\<close> ("also spelled \<open>PAYED\<close> in one code path") and
  \<open>FAILED\<close>; each key the routers read is the string of its own spelling.
\<close>

definition OrderStatus_NEW :: string where
  "OrderStatus_NEW = ''NEW''"

definition OrderStatus_PAID :: string where
  "OrderStatus_PAID = ''PAID''"

definition OrderStatus_PAYED :: string where
  "OrderStatus_PAYED = ''PAYED''"

definition OrderStatus_FAILED :: string where
  "OrderStatus_FAILED = ''FAILED''"

section \<open>The document store\<close>

text \<open>A query filter of the order collection: an absent key constrains nothing.\<close>

record order_filter =
  f_id :: "object_id option"
  f_user :: "object_id option"
  f_status :: "string option"

definition matches :: "order_filter \<Rightarrow> order \<Rightarrow> bool" where
  "matches f x =
     ((case f_id f of None \<Rightarrow> True | Some i \<Rightarrow> o_id x = i) \<and>
      (case f_user f of None \<Rightarrow> True | Some u \<Rightarrow> o_user x = u) \<and>
      (case f_status f of None \<Rightarrow> True | Some s \<Rightarrow> o_status x = s))"

definition OrderModel_findOne :: "order_filter \<Rightarrow> order list \<Rightarrow> order option" where
  "OrderModel_findOne f os = List.find (matches f) os"

definition OrderModel_find :: "order_filter \<Rightarrow> order list \<Rightarrow> order list" where
  "OrderModel_find f os = filter (matches f) os"

text \<open>\<open>.sort('-createdAt')\<close>: descending creation time.\<close>

definition sort_createdAt_desc :: "order list \<Rightarrow> order list" where
  "sort_createdAt_desc os = rev (sort_key o_createdAt os)"

definition find_order :: "order list \<Rightarrow> object_id \<Rightarrow> order option" where
  "find_order os i = List.find (\<lambda>x. o_id x = i) os"

text \<open>
  What \<open>findById\<close> is called with: an id, or the request object itself, which the store
  cannot cast to an id.
\<close>

datatype id_arg = Id object_id | ReqObject

definition OrderModel_findById :: "order list \<Rightarrow> id_arg \<Rightarrow> js_error + order option" where
  "OrderModel_findById os a =
     (case a of Id i \<Rightarrow> Inr (find_order os i) | ReqObject \<Rightarrow> Inl CastError)"

text \<open>
  The \<open>:id\<close> segment of a request path, as the store casts it: the string of an object
  id, or a string that is no object id.
\<close>

datatype id_param = ObjectIdString object_id | OtherString string

text \<open>
  \<open>findByIdAndUpdate(id, {status: s}, {new: true})\<close>: a cast error for a string that is
  no object id; otherwise the updated document, or null, and the collection after the
  update.
\<close>

fun update_status :: "order list \<Rightarrow> object_id \<Rightarrow> string \<Rightarrow> order option \<times> order list" where
  "update_status [] i s = (None, [])"
| "update_status (x # xs) i s =
     (if o_id x = i then (Some (x\<lparr>o_status := s\<rparr>), x\<lparr>o_status := s\<rparr> # xs)
      else (case update_status xs i s of (r, ys) \<Rightarrow> (r, x # ys)))"

definition OrderModel_findByIdAndUpdate ::
  "order list \<Rightarrow> id_param \<Rightarrow> string \<Rightarrow> js_error + order option \<times> order list" where
  "OrderModel_findByIdAndUpdate os p s =
     (case p of
        ObjectIdString i \<Rightarrow> Inr (update_status os i s)
      | OtherString w \<Rightarrow> Inl CastError)"

text \<open>\<open>doc.save()\<close> of a document read from the collection: it replaces the stored one.\<close>

fun save_order :: "order list \<Rightarrow> order \<Rightarrow> order list" where
  "save_order [] d = []"
| "save_order (x # xs) d = (if o_id x = o_id d then d # xs else x # save_order xs d)"

definition new_object_id :: "object_id list \<Rightarrow> object_id" where
  "new_object_id ids = Suc (fold max ids 0)"

text \<open>
  Modelled from the spec: models/order.model.js is not among the sources. An order has
  the fields of the spec's data model. The constructor keeps the keys of the object it is
  given: the owner reaches the document in no other way than as its \<open>user\<close> key, the
  items as its \<open>items\<close> key, and an \<open>_id\<close> or a creation time of the object is kept
  as well; the store assigns the identifier and the creation time that the object leaves
  out. The owner is required. The status of a new document is \<open>NEW\<close>, as the spec states
  it ("a created order starts in status NEW"); the sources do not show what the schema
  does with a status key of the object.
\<close>

definition OrderModel_new ::
  "timestamp \<Rightarrow> order list \<Rightarrow> order_body \<Rightarrow> js_error + order" where
  "OrderModel_new now os d =
     (case b_user d of
        None \<Rightarrow> Inl ValidationError
      | Some uid \<Rightarrow>
          Inr \<lparr> o_id = (case b_id d of None \<Rightarrow> new_object_id (map o_id os) | Some i \<Rightarrow> i),
                o_user = uid,
                o_items = (case b_items d of None \<Rightarrow> [] | Some its \<Rightarrow> its),
                o_totalPrice = b_totalPrice d,
                o_paymentId = b_paymentId d,
                o_status = OrderStatus_NEW,
                o_createdAt = (case b_createdAt d of None \<Rightarrow> now | Some t \<Rightarrow> t) \<rparr>)"

text \<open>
  \<open>save()\<close> of a new document: the store keeps \<open>_id\<close> unique and refuses a document
  whose \<open>_id\<close> it already holds.
\<close>

definition insert_order :: "order list \<Rightarrow> order \<Rightarrow> js_error + order list" where
  "insert_order os d =
     (if o_id d \<in> set (map o_id os) then Inl DuplicateKey else Inr (os @ [d]))"

definition UserModel_findById :: "user list \<Rightarrow> object_id \<Rightarrow> user option" where
  "UserModel_findById us i = List.find (\<lambda>u. u_id u = i) us"

text \<open>\<open>UserModel.findOne({ email })\<close>: the stored email equals the given string.\<close>

definition UserModel_findOne_email :: "user list \<Rightarrow> string \<Rightarrow> user option" where
  "UserModel_findOne_email us e = List.find (\<lambda>u. u_email u = e) us"

text \<open>
  Modelled from the spec: models/user.model.js is not among the sources. A user has the
  fields of the spec's data model; the store assigns the identifier and the two flags
  start as false. Whether the email path carries a unique index is the parameter
  \<open>unique_email\<close>: with the index, creating a second document with a stored email is
  refused by the store with a duplicate-key error.
\<close>

definition UserModel_create ::
  "bool \<Rightarrow> user list \<Rightarrow> string \<Rightarrow> string \<Rightarrow> string \<Rightarrow> string \<Rightarrow> js_error + user" where
  "UserModel_create unique_email us nm em pw ad =
     (if unique_email \<and> em \<in> set (map u_email us) then Inl DuplicateKey
      else Inr \<lparr> u_id = new_object_id (map u_id us), u_email = em, u_password = pw,
                 u_name = nm, u_address = ad, u_isAdmin = False, u_isBlocked = False \<rparr>)"

section \<open>String helpers\<close>

text \<open>
  \<open>toLowerCase\<close> on the letters \<open>A\<close> to \<open>Z\<close>; every other byte is kept. JavaScript
  also lower-cases the cased characters outside ASCII, which this string type does not
  represent as characters; the emails evaluated below are ASCII.
\<close>

definition toLowerCase_char :: "char \<Rightarrow> char" where
  "toLowerCase_char c =
     (let n = (of_char c :: nat) in if 65 \<le> n \<and> n \<le> 90 then char_of (n + 32) else c)"

definition toLowerCase :: "string \<Rightarrow> string" where
  "toLowerCase s = map toLowerCase_char s"

section \<open>order.router.js\<close>

text \<open>
  \<open>POST /create\<close>. The calls on \<open>res\<close> are returned in the order the handler makes
  them; the client receives the first one. The test of the empty cart sends its answer
  and does not return, so the handler goes on to build and save the order. An exception
  of the constructor or of \<open>save\<close> leaves the handler.
\<close>

definition create ::
  "timestamp \<Rightarrow> db \<Rightarrow> (unit, order_body) request \<Rightarrow> response list \<times> db" where
  "create now st req =
     (let order = req_body req in
      case b_items order of
        None \<Rightarrow> ([Thrown TypeError], st)
      | Some its \<Rightarrow>
          (let cart = (if length its \<le> 0
                       then [StatusSend BAD_REQUEST (Text ''Cart Is Empty!'')] else [])
           in case OrderModel_new now (orders st) (order\<lparr>b_user := Some (c_id (req_user req))\<rparr>) of
                Inl e \<Rightarrow> (cart @ [Thrown e], st)
              | Inr newOrder \<Rightarrow>
                  (case insert_order (orders st) newOrder of
                     Inl e \<Rightarrow> (cart @ [Thrown e], st)
                   | Inr os \<Rightarrow> (cart @ [Send (OrderDoc newOrder)], st\<lparr>orders := os\<rparr>))))"

text \<open>
  Modelled from the spec: \<open>getNewOrderForCurrentUser\<close> is called by \<open>PUT /pay\<close> and is
  neither defined nor imported in order.router.js. The spec: it "locates the caller's
  most recent \<open>NEW\<close> order".
\<close>

definition getNewOrderForCurrentUser ::
  "order list \<Rightarrow> ('p, 'b) request \<Rightarrow> order option" where
  "getNewOrderForCurrentUser os req =
     (case sort_createdAt_desc
             (OrderModel_find \<lparr> f_id = None, f_user = Some (c_id (req_user req)),
                                f_status = Some OrderStatus_NEW \<rparr> os) of
        [] \<Rightarrow> None
      | x # _ \<Rightarrow> Some x)"

text \<open>\<open>PUT /pay\<close>.\<close>

definition pay :: "db \<Rightarrow> (unit, pay_body) request \<Rightarrow> response \<times> db" where
  "pay st req =
     (let paymentId = pb_paymentId (req_body req) in
      case getNewOrderForCurrentUser (orders st) req of
        None \<Rightarrow> (StatusSend BAD_REQUEST (Text ''Order Not Found!''), st)
      | Some order \<Rightarrow>
          (let order' = order\<lparr>o_paymentId := Some paymentId, o_status := OrderStatus_PAYED\<rparr>
           in (Send (IdDoc (o_id order')), st\<lparr>orders := save_order (orders st) order'\<rparr>)))"

text \<open>\<open>GET /track/:orderId\<close>: the filter, then the handler.\<close>

definition track_filter :: "user \<Rightarrow> object_id \<Rightarrow> order_filter" where
  "track_filter usr orderId =
     (let flt = \<lparr> f_id = Some orderId, f_user = None, f_status = None \<rparr>
      in if \<not> u_isAdmin usr then flt\<lparr>f_user := Some (u_id usr)\<rparr> else flt)"

definition track :: "db \<Rightarrow> (object_id, 'b) request \<Rightarrow> response" where
  "track st req =
     (let orderId = req_params req in
      case UserModel_findById (users st) (c_id (req_user req)) of
        None \<Rightarrow> Thrown TypeError
      | Some usr \<Rightarrow>
          (case OrderModel_findOne (track_filter usr orderId) (orders st) of
             None \<Rightarrow> Send (Num UNAUTHORIZED)
           | Some order \<Rightarrow> Send (OrderDoc order)))"

text \<open>
  \<open>GET /order/:orderId\<close>. After a first miss the handler asks again, and passes the
  request object \<open>req\<close> where the id belongs; every exception is caught and answered
  with status 500.
\<close>

definition getOrder :: "order list \<Rightarrow> id_arg \<Rightarrow> js_error + order option" where
  "getOrder os a = OrderModel_findById os a"

definition order_by_id :: "db \<Rightarrow> (object_id, 'b) request \<Rightarrow> response" where
  "order_by_id st req =
     (let orderId = req_params req in
      case getOrder (orders st) (Id orderId) of
        Inl e \<Rightarrow> StatusSend 500 (Text ''Internal Server Error'')
      | Inr first \<Rightarrow>
          (case (case first of
                   None \<Rightarrow> getOrder (orders st) ReqObject
                 | Some x \<Rightarrow> Inr (Some x)) of
             Inl e \<Rightarrow> StatusSend 500 (Text ''Internal Server Error'')
           | Inr None \<Rightarrow> StatusSend BAD_REQUEST Empty
           | Inr (Some order) \<Rightarrow> Send (OrderDoc order)))"

text \<open>
  \<open>PUT /:id/status\<close>. The flags are read for their truth value. The handler catches
  every exception of the store and answers it with status 500.
\<close>

definition put_status :: "db \<Rightarrow> (id_param, status_body) request \<Rightarrow> response \<times> db" where
  "put_status st req =
     (let i = req_params req; body = req_body req in
      case (if isExpired body then Some OrderStatus_FAILED
            else if isPaid body then Some OrderStatus_PAID
            else None) of
        None \<Rightarrow>
          (StatusSend 400
             (ErrorMsg ''Invalid status update. Either isPaid or isExpired must be true.''), st)
      | Some newStatus \<Rightarrow>
          (case OrderModel_findByIdAndUpdate (orders st) i newStatus of
             Inl err \<Rightarrow> (StatusSend 500 (ErrorMsg ''An internal server error occurred''), st)
           | Inr (None, os) \<Rightarrow> (StatusSend 404 (ErrorMsg ''Order not found''), st)
           | Inr (Some order, os) \<Rightarrow>
               (StatusSend 200 (Success (''Order status updated to '' @ newStatus) order),
                st\<lparr>orders := os\<rparr>)))"

text \<open>
  \<open>GET /:status?\<close>. The status parameter narrows the filter when it is truthy: present
  and not the empty string.
\<close>

definition list_filter :: "user \<Rightarrow> string option \<Rightarrow> order_filter" where
  "list_filter usr status =
     (let f0 = \<lparr> f_id = None, f_user = None, f_status = None \<rparr>;
          f1 = (if \<not> u_isAdmin usr then f0\<lparr>f_user := Some (u_id usr)\<rparr> else f0)
      in case status of
           None \<Rightarrow> f1
         | Some s \<Rightarrow> if s = [] then f1 else f1\<lparr>f_status := Some s\<rparr>)"

definition get_orders :: "db \<Rightarrow> (string option, 'b) request \<Rightarrow> response" where
  "get_orders st req =
     (let status = req_params req in
      case UserModel_findById (users st) (c_id (req_user req)) of
        None \<Rightarrow> Thrown TypeError
      | Some usr \<Rightarrow>
          Send (OrderDocs (sort_createdAt_desc
                             (OrderModel_find (list_filter usr status) (orders st)))))"

text \<open>
  The status key of that filter as a function of the parameter, used to write the
  filters of the handler in closed form.
\<close>

definition status_narrowing :: "string option \<Rightarrow> string option" where
  "status_narrowing status =
     (case status of None \<Rightarrow> None | Some s \<Rightarrow> if s = [] then None else Some s)"

section \<open>user.router.js\<close>

definition PASSWORD_HASH_SALT_ROUNDS :: nat where
  "PASSWORD_HASH_SALT_ROUNDS = 10"

definition generateTokenResponse :: "user \<Rightarrow> token_response" where
  "generateTokenResponse usr =
     \<lparr> t_id = u_id usr, t_email = u_email usr, t_name = u_name usr,
       t_address = u_address usr, t_isAdmin = u_isAdmin usr,
       t_token = \<lparr> c_id = u_id usr, c_email = u_email usr, c_isAdmin = u_isAdmin usr \<rparr> \<rparr>"

text \<open>
  \<open>POST /register\<close>. The password hash of the library is the parameter \<open>hash\<close>. The
  lookup uses the email as sent; the stored email is its lower-cased form.
\<close>

definition register ::
  "(string \<Rightarrow> nat \<Rightarrow> string) \<Rightarrow> bool \<Rightarrow> db \<Rightarrow> register_body \<Rightarrow> response \<times> db" where
  "register hash unique_email st body =
     (case UserModel_findOne_email (users st) (rb_email body) of
        Some usr \<Rightarrow> (StatusSend BAD_REQUEST (Text ''User already exists, please login!''), st)
      | None \<Rightarrow>
          (let hashedPassword = hash (rb_password body) PASSWORD_HASH_SALT_ROUNDS
           in case UserModel_create unique_email (users st) (rb_name body)
                     (toLowerCase (rb_email body)) hashedPassword (rb_address body) of
                Inl e \<Rightarrow> (Thrown e, st)
              | Inr result \<Rightarrow>
                  (Send (Token (generateTokenResponse result)),
                   st\<lparr>users := users st @ [result]\<rparr>)))"

section \<open>A sample store\<close>

text \<open>
  Two ordinary users, one administrator and four orders, used to run the handlers on
  concrete requests.
\<close>

definition ex_user :: "object_id \<Rightarrow> string \<Rightarrow> bool \<Rightarrow> user" where
  "ex_user i e a =
     \<lparr> u_id = i, u_email = e, u_password = ''#'', u_name = ''n'', u_address = ''a'',
       u_isAdmin = a, u_isBlocked = False \<rparr>"

definition ex_order :: "object_id \<Rightarrow> object_id \<Rightarrow> string \<Rightarrow> timestamp \<Rightarrow> order" where
  "ex_order i u s t =
     \<lparr> o_id = i, o_user = u,
       o_items = [\<lparr> food = ''soup'', quantity = 2, price = 5 \<rparr>],
       o_totalPrice = Some 10, o_paymentId = None, o_status = s, o_createdAt = t \<rparr>"

definition ex_db :: db where
  "ex_db =
     \<lparr> users = [ex_user 1 ''ann@x.io'' False, ex_user 2 ''bob@x.io'' False,
                ex_user 3 ''root@x.io'' True],
       orders = [ex_order 10 1 ''NEW'' 100, ex_order 11 1 ''NEW'' 200,
                 ex_order 12 2 ''PAID'' 150, ex_order 13 2 ''FAILED'' 50] \<rparr>"

text \<open>The same store after the administrator has lost the role.\<close>

definition ex_db_demoted :: db where
  "ex_db_demoted =
     ex_db\<lparr>users := [ex_user 1 ''ann@x.io'' False, ex_user 2 ''bob@x.io'' False,
                     ex_user 3 ''root@x.io'' False]\<rparr>"

definition ex_token :: "object_id \<Rightarrow> bool \<Rightarrow> claims" where
  "ex_token i a = \<lparr> c_id = i, c_email = ''t@x.io'', c_isAdmin = a \<rparr>"

definition ex_req :: "object_id \<Rightarrow> 'p \<Rightarrow> 'b \<Rightarrow> ('p, 'b) request" where
  "ex_req i p b = \<lparr> req_user = ex_token i False, req_params = p, req_body = b \<rparr>"



definition ex_body_empty :: order_body where
  "ex_body_empty =
     \<lparr> b_id = None, b_items = Some [], b_user = None, b_status = None, b_paymentId = None,
       b_totalPrice = None, b_createdAt = None \<rparr>"

definition ex_register :: register_body where
  "ex_register =
     \<lparr> rb_name = ''Ann'', rb_email = ''Ann@X.io'', rb_password = ''pw'', rb_address = ''x'' \<rparr>"

lemmas ex_defs = ex_db_def ex_order_def ex_user_def ex_req_def ex_token_def find_order_def
  OrderStatus_FAILED_def OrderStatus_PAID_def OrderStatus_PAYED_def OrderStatus_NEW_def
  BAD_REQUEST_def UNAUTHORIZED_def

section \<open>Properties of the store operations\<close>

lemma update_status_None:
  "find_order os i = None \<Longrightarrow> update_status os i s = (None, os)"
  by (induction os) (auto simp: find_order_def)

lemma update_status_Some:
  "find_order os i = Some x \<Longrightarrow>
   \<exists>ys. update_status os i s = (Some (x\<lparr>o_status := s\<rparr>), ys) \<and>
        find_order ys i = Some (x\<lparr>o_status := s\<rparr>)"
  by (induction os) (auto simp: find_order_def split: prod.splits)

lemma update_status_other:
  "j \<noteq> i \<Longrightarrow> find_order (snd (update_status os i s)) j = find_order os j"
  by (induction os) (auto simp: find_order_def split: prod.splits)

section \<open>Update status\<close>

lemma put_status_cast_error:
  assumes "req_params req = OtherString w"
  shows "put_status st req =
     (if isExpired (req_body req) \<or> isPaid (req_body req)
      then (StatusSend 500 (ErrorMsg ''An internal server error occurred''), st)
      else (StatusSend 400
              (ErrorMsg ''Invalid status update. Either isPaid or isExpired must be true.''), st))"
  using assms by (simp add: put_status_def OrderModel_findByIdAndUpdate_def Let_def)

text \<open>
  C2. \<open>PUT /:id/status\<close> reads the flags first: with \<open>isExpired\<close> set, the order with
  the given id becomes \<open>FAILED\<close>; otherwise, with \<open>isPaid\<close> set, it becomes \<open>PAID\<close>;
  with neither flag the answer is the invalid-request error (status 400) and the store is
  unchanged. With a flag set, the answer is not-found (status 404) when the id is an
  object id that no order has, and the server error (status 500) when the id is no
  object id; the store is unchanged in both cases. No other order and no user is touched.
\<close>

theorem put_status_transitions:
  assumes "put_status st req = (resp, st')"
  shows
    "(isExpired (req_body req) \<and> req_params req = ObjectIdString i \<and>
      find_order (orders st) i = Some x \<longrightarrow>
        resp = StatusSend 200 (Success (''Order status updated to '' @ OrderStatus_FAILED)
                                 (x\<lparr>o_status := OrderStatus_FAILED\<rparr>)) \<and>
        find_order (orders st') i = Some (x\<lparr>o_status := OrderStatus_FAILED\<rparr>)) \<and>
     (\<not> isExpired (req_body req) \<and> isPaid (req_body req) \<and>
      req_params req = ObjectIdString i \<and> find_order (orders st) i = Some x \<longrightarrow>
        resp = StatusSend 200 (Success (''Order status updated to '' @ OrderStatus_PAID)
                                 (x\<lparr>o_status := OrderStatus_PAID\<rparr>)) \<and>
        find_order (orders st') i = Some (x\<lparr>o_status := OrderStatus_PAID\<rparr>)) \<and>
     (\<not> isExpired (req_body req) \<and> \<not> isPaid (req_body req) \<longrightarrow>
        resp = StatusSend 400
                 (ErrorMsg ''Invalid status update. Either isPaid or isExpired must be true.'') \<and>
        st' = st) \<and>
     ((isExpired (req_body req) \<or> isPaid (req_body req)) \<and>
      req_params req = ObjectIdString i \<and> find_order (orders st) i = None \<longrightarrow>
        resp = StatusSend 404 (ErrorMsg ''Order not found'') \<and> st' = st) \<and>
     ((isExpired (req_body req) \<or> isPaid (req_body req)) \<and> req_params req = OtherString w \<longrightarrow>
        resp = StatusSend 500 (ErrorMsg ''An internal server error occurred'') \<and> st' = st) \<and>
     (\<forall>j. req_params req \<noteq> ObjectIdString j \<longrightarrow>
          find_order (orders st') j = find_order (orders st) j) \<and>
     users st' = users st"
proof (cases "req_params req")
  case (OtherString v)
  from put_status_cast_error[OF OtherString, of st] assms show ?thesis
    using OtherString by (auto split: if_splits)
next
  case (ObjectIdString k)
  have none: "find_order (orders st) k = None \<Longrightarrow>
      update_status (orders st) k s = (None, orders st)" for s
    by (rule update_status_None)
  have other: "j \<noteq> k \<Longrightarrow>
      find_order (snd (update_status (orders st) k s)) j = find_order (orders st) j"
    for j s by (rule update_status_other)
  show ?thesis
  proof (cases "find_order (orders st) k")
    case None
    with assms none ObjectIdString show ?thesis
      by (auto simp: put_status_def OrderModel_findByIdAndUpdate_def Let_def split: if_splits)
  next
    case (Some y)
    from update_status_Some[OF Some]
    have upd: "\<exists>ys. update_status (orders st) k s = (Some (y\<lparr>o_status := s\<rparr>), ys) \<and>
        find_order ys k = Some (y\<lparr>o_status := s\<rparr>)" for s by blast
    obtain yf where f: "update_status (orders st) k OrderStatus_FAILED
          = (Some (y\<lparr>o_status := OrderStatus_FAILED\<rparr>), yf)"
        "find_order yf k = Some (y\<lparr>o_status := OrderStatus_FAILED\<rparr>)"
      using upd by blast
    obtain yp where p: "update_status (orders st) k OrderStatus_PAID
          = (Some (y\<lparr>o_status := OrderStatus_PAID\<rparr>), yp)"
        "find_order yp k = Some (y\<lparr>o_status := OrderStatus_PAID\<rparr>)"
      using upd by blast
    have frame_f: "j \<noteq> k \<Longrightarrow> find_order yf j = find_order (orders st) j" for j
      using other[of j OrderStatus_FAILED] f(1) by simp
    have frame_p: "j \<noteq> k \<Longrightarrow> find_order yp j = find_order (orders st) j" for j
      using other[of j OrderStatus_PAID] p(1) by simp
    from assms Some f p frame_f frame_p ObjectIdString show ?thesis
      by (auto simp: put_status_def OrderModel_findByIdAndUpdate_def Let_def split: if_splits)
  qed
qed

theorem put_status_transitions_witness:
  "find_order (orders ex_db) 12 = Some (ex_order 12 2 ''PAID'' 150) \<and>
   isExpired \<lparr>isPaid = False, isExpired = True\<rparr> \<and>
   find_order (orders (snd (put_status ex_db
       (ex_req 3 (ObjectIdString 12) \<lparr>isPaid = False, isExpired = True\<rparr>)))) 12
     = Some (ex_order 12 2 ''FAILED'' 150) \<and>
   find_order (orders (snd (put_status ex_db
       (ex_req 3 (ObjectIdString 10) \<lparr>isPaid = True, isExpired = False\<rparr>)))) 10
     = Some (ex_order 10 1 ''PAID'' 100) \<and>
   put_status ex_db (ex_req 3 (ObjectIdString 10) \<lparr>isPaid = False, isExpired = False\<rparr>)
     = (StatusSend 400
          (ErrorMsg ''Invalid status update. Either isPaid or isExpired must be true.''), ex_db) \<and>
   find_order (orders ex_db) 77 = None \<and>
   put_status ex_db (ex_req 3 (ObjectIdString 77) \<lparr>isPaid = True, isExpired = False\<rparr>)
     = (StatusSend 404 (ErrorMsg ''Order not found''), ex_db) \<and>
   put_status ex_db (ex_req 3 (OtherString ''abc'') \<lparr>isPaid = False, isExpired = True\<rparr>)
     = (StatusSend 500 (ErrorMsg ''An internal server error occurred''), ex_db)"
  using
    put_status_transitions [of ex_db
      "ex_req 3 (ObjectIdString 12) \<lparr>isPaid = False, isExpired = True\<rparr>"
      "fst (put_status ex_db (ex_req 3 (ObjectIdString 12) \<lparr>isPaid = False, isExpired = True\<rparr>))"
      "snd (put_status ex_db (ex_req 3 (ObjectIdString 12) \<lparr>isPaid = False, isExpired = True\<rparr>))"
      12 "ex_order 12 2 ''PAID'' 150"]
    put_status_transitions [of ex_db
      "ex_req 3 (ObjectIdString 10) \<lparr>isPaid = True, isExpired = False\<rparr>"
      "fst (put_status ex_db (ex_req 3 (ObjectIdString 10) \<lparr>isPaid = True, isExpired = False\<rparr>))"
      "snd (put_status ex_db (ex_req 3 (ObjectIdString 10) \<lparr>isPaid = True, isExpired = False\<rparr>))"
      10 "ex_order 10 1 ''NEW'' 100"]
    put_status_transitions [of ex_db
      "ex_req 3 (ObjectIdString 10) \<lparr>isPaid = False, isExpired = False\<rparr>"
      "fst (put_status ex_db (ex_req 3 (ObjectIdString 10) \<lparr>isPaid = False, isExpired = False\<rparr>))"
      "snd (put_status ex_db (ex_req 3 (ObjectIdString 10) \<lparr>isPaid = False, isExpired = False\<rparr>))"]
    put_status_transitions [of ex_db
      "ex_req 3 (ObjectIdString 77) \<lparr>isPaid = True, isExpired = False\<rparr>"
      "fst (put_status ex_db (ex_req 3 (ObjectIdString 77) \<lparr>isPaid = True, isExpired = False\<rparr>))"
      "snd (put_status ex_db (ex_req 3 (ObjectIdString 77) \<lparr>isPaid = True, isExpired = False\<rparr>))"
      77]
    put_status_transitions [of ex_db
      "ex_req 3 (OtherString ''abc'') \<lparr>isPaid = False, isExpired = True\<rparr>"
      "fst (put_status ex_db (ex_req 3 (OtherString ''abc'') \<lparr>isPaid = False, isExpired = True\<rparr>))"
      "snd (put_status ex_db (ex_req 3 (OtherString ''abc'') \<lparr>isPaid = False, isExpired = True\<rparr>))"
      _ _ "''abc''"]
  by (simp add: ex_defs prod_eq_iff)

text \<open>
  A request with \<open>isPaid\<close> set whose id is the string \<open>abc\<close>: no order has that id, and
  the answer is the server error of status 500, not the not-found answer of status 404.
\<close>

theorem put_status_malformed_id_counterexample:
  "isPaid (req_body (ex_req 3 (OtherString ''abc'') \<lparr>isPaid = True, isExpired = False\<rparr>)) \<and>
   put_status ex_db (ex_req 3 (OtherString ''abc'') \<lparr>isPaid = True, isExpired = False\<rparr>)
     = (StatusSend 500 (ErrorMsg ''An internal server error occurred''), ex_db) \<and>
   fst (put_status ex_db (ex_req 3 (OtherString ''abc'') \<lparr>isPaid = True, isExpired = False\<rparr>))
     \<noteq> StatusSend 404 (ErrorMsg ''Order not found'')"
  by (simp add: put_status_def OrderModel_findByIdAndUpdate_def ex_req_def)

section \<open>Track order\<close>

lemma UserModel_findById_id:
  "UserModel_findById us i = Some usr \<Longrightarrow> u_id usr = i \<and> usr \<in> set us"
  by (auto simp: UserModel_findById_def find_Some_iff)

lemma distinct_ids_same_order:
  "distinct (map o_id os) \<Longrightarrow> x \<in> set os \<Longrightarrow> y \<in> set os \<Longrightarrow> o_id x = o_id y \<Longrightarrow> x = y"
  by (meson distinct_map inj_onD)

text \<open>
  C3. The caller resolves to a stored user who is not an administrator; the store keeps
  order ids unique; \<open>x\<close> is a stored order whose owner is not the caller. Then
  \<open>GET /track/:orderId\<close> for the id of \<open>x\<close> answers with the unauthorized code, and
  the answer is not the order.
\<close>

theorem track_foreign_order_unauthorized:
  assumes "UserModel_findById (users st) (c_id (req_user req)) = Some usr"
    and "\<not> u_isAdmin usr"
    and "distinct (map o_id (orders st))"
    and "x \<in> set (orders st)"
    and "o_user x \<noteq> c_id (req_user req)"
    and "req_params req = o_id x"
  shows "track st req = Send (Num UNAUTHORIZED) \<and> track st req \<noteq> Send (OrderDoc x)"
proof -
  have uid: "u_id usr = c_id (req_user req)"
    using assms(1) by (simp add: UserModel_findById_id)
  have "\<not> (\<exists>y. y \<in> set (orders st) \<and> matches (track_filter usr (o_id x)) y)"
  proof
    assume "\<exists>y. y \<in> set (orders st) \<and> matches (track_filter usr (o_id x)) y"
    then obtain y where y: "y \<in> set (orders st)" "o_id y = o_id x" "o_user y = u_id usr"
      using assms(2) by (auto simp: matches_def track_filter_def)
    from distinct_ids_same_order[OF assms(3) y(1) assms(4) y(2)] have "y = x" .
    with y(3) uid assms(5) show False by simp
  qed
  then have "OrderModel_findOne (track_filter usr (o_id x)) (orders st) = None"
    by (simp add: OrderModel_findOne_def find_None_iff)
  then show ?thesis
    using assms(1,6) by (simp add: track_def)
qed

theorem track_foreign_order_unauthorized_witness:
  "UserModel_findById (users ex_db) (c_id (req_user (ex_req 1 (12::nat) ())))
     = Some (ex_user 1 ''ann@x.io'' False) \<and>
   \<not> u_isAdmin (ex_user 1 ''ann@x.io'' False) \<and>
   distinct (map o_id (orders ex_db)) \<and>
   ex_order 12 2 ''PAID'' 150 \<in> set (orders ex_db) \<and>
   o_user (ex_order 12 2 ''PAID'' 150) \<noteq> 1 \<and>
   track ex_db (ex_req 1 12 ()) = Send (Num UNAUTHORIZED)"
  using track_foreign_order_unauthorized [of ex_db "ex_req 1 12 ()"
      "ex_user 1 ''ann@x.io'' False" "ex_order 12 2 ''PAID'' 150"]
  by (simp add: ex_defs UserModel_findById_def)

section \<open>List orders\<close>

lemma sorted_sort_createdAt_desc:
  "sorted_wrt (\<lambda>a b. o_createdAt b \<le> o_createdAt a) (sort_createdAt_desc os)"
proof -
  have "sorted (map o_createdAt (sort_key o_createdAt os))" by simp
  then have "sorted_wrt (\<lambda>a b. o_createdAt a \<le> o_createdAt b) (sort_key o_createdAt os)"
    by (simp add: sorted_wrt_map)
  then show ?thesis
    by (simp add: sort_createdAt_desc_def sorted_wrt_rev)
qed

lemma mset_sort_createdAt_desc: "mset (sort_createdAt_desc os) = mset os"
  by (simp add: sort_createdAt_desc_def)

lemma matches_list_filter:
  "matches (list_filter usr status) x \<longleftrightarrow>
     (u_isAdmin usr \<or> o_user x = u_id usr) \<and>
     (case status of None \<Rightarrow> True | Some s \<Rightarrow> s = [] \<or> o_status x = s)"
  by (auto simp: matches_def list_filter_def Let_def split: option.splits)

text \<open>
  C4. The caller resolves to a stored user. \<open>GET /:status?\<close> answers with a list that
  holds, each exactly once, the stored orders that pass two tests: the user is an
  administrator or owns the order; and no status was given (or the empty string) or the
  order has the given status. So an administrator receives every order, whoever owns it,
  and any other caller exactly the own ones, each narrowed by the status when one is
  given. The list is in descending order of creation time.
\<close>

theorem get_orders_scope_and_order:
  assumes "UserModel_findById (users st) (c_id (req_user req)) = Some usr"
  shows "\<exists>xs. get_orders st req = Send (OrderDocs xs) \<and>
      sorted_wrt (\<lambda>a b. o_createdAt b \<le> o_createdAt a) xs \<and>
      mset xs = mset (filter (\<lambda>x. (u_isAdmin usr \<or> o_user x = c_id (req_user req)) \<and>
                                 (case req_params req of
                                    None \<Rightarrow> True
                                  | Some s \<Rightarrow> s = [] \<or> o_status x = s))
                        (orders st))"
proof -
  have uid: "u_id usr = c_id (req_user req)"
    using assms by (simp add: UserModel_findById_id)
  have flt: "OrderModel_find (list_filter usr (req_params req)) (orders st) =
      filter (\<lambda>x. (u_isAdmin usr \<or> o_user x = c_id (req_user req)) \<and>
                  (case req_params req of None \<Rightarrow> True | Some s \<Rightarrow> s = [] \<or> o_status x = s))
        (orders st)"
    unfolding OrderModel_find_def by (rule filter_cong) (simp_all add: matches_list_filter uid)
  show ?thesis
    using assms
    by (simp add: get_orders_def flt sorted_sort_createdAt_desc mset_sort_createdAt_desc)
qed

theorem get_orders_scope_and_order_witness:
  "UserModel_findById (users ex_db) 3 = Some (ex_user 3 ''root@x.io'' True) \<and>
   get_orders ex_db (ex_req 3 (Some ''FAILED'') ())
     = Send (OrderDocs [ex_order 13 2 ''FAILED'' 50]) \<and>
   UserModel_findById (users ex_db) 2 = Some (ex_user 2 ''bob@x.io'' False) \<and>
   (\<exists>xs. get_orders ex_db (ex_req 2 None ()) = Send (OrderDocs xs) \<and>
         mset xs = {#ex_order 12 2 ''PAID'' 150, ex_order 13 2 ''FAILED'' 50#} \<and>
         sorted_wrt (\<lambda>a b. o_createdAt b \<le> o_createdAt a) xs)"
  using get_orders_scope_and_order [of ex_db "ex_req 3 (Some ''FAILED'') ()"
      "ex_user 3 ''root@x.io'' True"]
    get_orders_scope_and_order [of ex_db "ex_req 2 None ()" "ex_user 2 ''bob@x.io'' False"]
  by (auto simp: ex_defs UserModel_findById_def)

section \<open>The scope comes from the stored user\<close>

text \<open>
  C8. One token \<open>tok\<close>, whatever its own role claim, presented to two stores: in the
  first its id resolves to an administrator, in the second to an ordinary user. The list
  and track handlers then query with different filters, without an owner key in the first
  store and with the owner key set to the caller in the second, and changing the role
  claim of the token changes no answer.
\<close>

theorem scope_from_stored_role:
  assumes "UserModel_findById (users st1) (c_id tok) = Some u1"
    and "UserModel_findById (users st2) (c_id tok) = Some u2"
    and "u_isAdmin u1" and "\<not> u_isAdmin u2"
  shows
    "get_orders st1 \<lparr>req_user = tok, req_params = s, req_body = b\<rparr> =
       Send (OrderDocs (sort_createdAt_desc (OrderModel_find
         \<lparr>f_id = None, f_user = None, f_status = status_narrowing s\<rparr> (orders st1)))) \<and>
     get_orders st2 \<lparr>req_user = tok, req_params = s, req_body = b\<rparr> =
       Send (OrderDocs (sort_createdAt_desc (OrderModel_find
         \<lparr>f_id = None, f_user = Some (c_id tok), f_status = status_narrowing s\<rparr> (orders st2)))) \<and>
     track st1 \<lparr>req_user = tok, req_params = i, req_body = b\<rparr> =
       (case OrderModel_findOne \<lparr>f_id = Some i, f_user = None, f_status = None\<rparr> (orders st1) of
          None \<Rightarrow> Send (Num UNAUTHORIZED) | Some x \<Rightarrow> Send (OrderDoc x)) \<and>
     track st2 \<lparr>req_user = tok, req_params = i, req_body = b\<rparr> =
       (case OrderModel_findOne \<lparr>f_id = Some i, f_user = Some (c_id tok), f_status = None\<rparr>
               (orders st2) of
          None \<Rightarrow> Send (Num UNAUTHORIZED) | Some x \<Rightarrow> Send (OrderDoc x)) \<and>
     get_orders st1 \<lparr>req_user = tok\<lparr>c_isAdmin := a\<rparr>, req_params = s, req_body = b\<rparr> =
       get_orders st1 \<lparr>req_user = tok, req_params = s, req_body = b\<rparr> \<and>
     get_orders st2 \<lparr>req_user = tok\<lparr>c_isAdmin := a\<rparr>, req_params = s, req_body = b\<rparr> =
       get_orders st2 \<lparr>req_user = tok, req_params = s, req_body = b\<rparr> \<and>
     track st1 \<lparr>req_user = tok\<lparr>c_isAdmin := a\<rparr>, req_params = i, req_body = b\<rparr> =
       track st1 \<lparr>req_user = tok, req_params = i, req_body = b\<rparr> \<and>
     track st2 \<lparr>req_user = tok\<lparr>c_isAdmin := a\<rparr>, req_params = i, req_body = b\<rparr> =
       track st2 \<lparr>req_user = tok, req_params = i, req_body = b\<rparr>"
proof -
  have id2: "u_id u2 = c_id tok"
    using assms(2) by (simp add: UserModel_findById_id)
  have l1: "list_filter u1 s = \<lparr>f_id = None, f_user = None, f_status = status_narrowing s\<rparr>"
    using assms(3) by (simp add: list_filter_def status_narrowing_def split: option.splits)
  have l2: "list_filter u2 s =
      \<lparr>f_id = None, f_user = Some (c_id tok), f_status = status_narrowing s\<rparr>"
    using assms(4) id2 by (simp add: list_filter_def status_narrowing_def split: option.splits)
  have t1: "track_filter u1 i = \<lparr>f_id = Some i, f_user = None, f_status = None\<rparr>"
    using assms(3) by (simp add: track_filter_def)
  have t2: "track_filter u2 i = \<lparr>f_id = Some i, f_user = Some (c_id tok), f_status = None\<rparr>"
    using assms(4) id2 by (simp add: track_filter_def)
  show ?thesis
    using assms(1,2) by (simp add: get_orders_def track_def l1 l2 t1 t2)
qed

theorem scope_from_stored_role_witness:
  "UserModel_findById (users ex_db) (c_id (ex_token 3 True))
     = Some (ex_user 3 ''root@x.io'' True) \<and>
   UserModel_findById (users ex_db_demoted) (c_id (ex_token 3 True))
     = Some (ex_user 3 ''root@x.io'' False) \<and>
   track ex_db \<lparr>req_user = ex_token 3 True, req_params = 12, req_body = ()\<rparr>
     = Send (OrderDoc (ex_order 12 2 ''PAID'' 150)) \<and>
   track ex_db_demoted \<lparr>req_user = ex_token 3 True, req_params = 12, req_body = ()\<rparr>
     = Send (Num UNAUTHORIZED) \<and>
   get_orders ex_db \<lparr>req_user = ex_token 3 True, req_params = Some ''PAID'', req_body = ()\<rparr>
     = Send (OrderDocs [ex_order 12 2 ''PAID'' 150]) \<and>
   get_orders ex_db_demoted
       \<lparr>req_user = ex_token 3 True, req_params = Some ''PAID'', req_body = ()\<rparr>
     = Send (OrderDocs [])"
  using scope_from_stored_role [of ex_db "ex_token 3 True" "ex_user 3 ''root@x.io'' True"
      ex_db_demoted "ex_user 3 ''root@x.io'' False" "Some ''PAID''" "()" 12]
  by (simp add: ex_defs ex_db_demoted_def UserModel_findById_def status_narrowing_def
      OrderModel_find_def OrderModel_findOne_def matches_def sort_createdAt_desc_def)


section \<open>Create order\<close>

lemma fold_max_ge: "x \<in> set xs \<Longrightarrow> x \<le> fold max xs (a::nat)"
proof (induction xs arbitrary: a)
  case Nil then show ?case by simp
next
  case (Cons y ys)
  have mono: "a \<le> fold max ys a" for a :: nat
    by (induction ys arbitrary: a) (auto intro: order_trans[OF max.cobounded2])
  from Cons show ?case
    by (auto intro: order_trans[OF max.cobounded1 mono])
qed

lemma new_object_id_fresh: "new_object_id ids \<notin> set ids"
  using fold_max_ge[of "new_object_id ids" ids 0] by (auto simp: new_object_id_def)

lemma create_stored_id_refused:
  assumes "b_items (req_body req) = Some its" and "its \<noteq> []"
    and "b_id (req_body req) = Some i" and "i \<in> set (map o_id (orders st))"
  shows "create now st req = ([Thrown DuplicateKey], st)"
  using assms by (simp add: create_def OrderModel_new_def insert_order_def Let_def)




text \<open>
  C10. The \<open>user\<close> field of the body has no effect on the outcome of \<open>POST /create\<close>:
  replacing it by any value \<open>w\<close> gives the same answers and the same store. Either the
  store is left as it was (the body has no item list and the handler throws, or the
  store refuses the save), or the store gains one order and its owner is the caller's
  id.
\<close>

theorem create_owner_overrides_body:
  "create now st (req\<lparr>req_body := (req_body req)\<lparr>b_user := w\<rparr>\<rparr>) = create now st req \<and>
   (b_items (req_body req) = None \<and> create now st req = ([Thrown TypeError], st) \<or>
    b_id (req_body req) \<in> Some ` set (map o_id (orders st)) \<and> snd (create now st req) = st \<or>
    (\<exists>x. snd (create now st req) = st\<lparr>orders := orders st @ [x]\<rparr> \<and>
         o_user x = c_id (req_user req)))"
proof -
  have indep: "create now st (req\<lparr>req_body := (req_body req)\<lparr>b_user := w\<rparr>\<rparr>) = create now st req"
    by (cases "b_items (req_body req)") (auto simp: create_def OrderModel_new_def Let_def)
  have cases: "b_items (req_body req) = None \<and> create now st req = ([Thrown TypeError], st) \<or>
    b_id (req_body req) \<in> Some ` set (map o_id (orders st)) \<and> snd (create now st req) = st \<or>
    (\<exists>x. snd (create now st req) = st\<lparr>orders := orders st @ [x]\<rparr> \<and>
         o_user x = c_id (req_user req))"
    using new_object_id_fresh[of "map o_id (orders st)"]
    by (cases "b_items (req_body req)"; cases "b_id (req_body req)")
       (auto simp: create_def OrderModel_new_def insert_order_def Let_def)
  from indep cases show ?thesis by blast
qed

text \<open>
  C6. The handler on an empty cart: it sends status 400 with the text
  \<open>Cart Is Empty!\<close>, does not return, and then saves a new order with no items (and
  calls \<open>send\<close> a second time). A new order record is produced for the request.
\<close>

theorem create_empty_cart_saves_order:
  "b_items (req_body (ex_req 1 () ex_body_empty)) = Some [] \<and>
   create 300 ex_db (ex_req 1 () ex_body_empty)
     = ([StatusSend BAD_REQUEST (Text ''Cart Is Empty!''),
         Send (OrderDoc \<lparr> o_id = 14, o_user = 1, o_items = [], o_totalPrice = None,
                           o_paymentId = None, o_status = ''NEW'', o_createdAt = 300 \<rparr>)],
        ex_db\<lparr>orders := orders ex_db @
                 [\<lparr> o_id = 14, o_user = 1, o_items = [], o_totalPrice = None,
                    o_paymentId = None, o_status = ''NEW'', o_createdAt = 300 \<rparr>]\<rparr>)"
  by (simp add: create_def OrderModel_new_def insert_order_def new_object_id_def ex_defs
      ex_body_empty_def)

text \<open>
  The same for every store, caller and body whose item list is empty and which carries
  no \<open>_id\<close>.
\<close>

lemma create_empty_cart_general:
  "\<exists>x. create now st (req\<lparr>req_body := (req_body req)\<lparr>b_items := Some [], b_id := None\<rparr>\<rparr>)
         = ([StatusSend BAD_REQUEST (Text ''Cart Is Empty!''), Send (OrderDoc x)],
            st\<lparr>orders := orders st @ [x]\<rparr>) \<and> o_items x = []"
  using new_object_id_fresh[of "map o_id (orders st)"]
  by (simp add: create_def OrderModel_new_def insert_order_def Let_def)

section \<open>Record payment\<close>

lemma set_sort_createdAt_desc: "set (sort_createdAt_desc os) = set os"
  by (simp add: sort_createdAt_desc_def)

lemma getNewOrderForCurrentUser_None:
  "getNewOrderForCurrentUser os req = None \<longleftrightarrow>
     \<not> (\<exists>y. y \<in> set os \<and> o_user y = c_id (req_user req) \<and> o_status y = OrderStatus_NEW)"
proof -
  let ?f = "\<lparr> f_id = None, f_user = Some (c_id (req_user req)), f_status = Some OrderStatus_NEW \<rparr>"
  have "getNewOrderForCurrentUser os req = None \<longleftrightarrow>
        set (sort_createdAt_desc (OrderModel_find ?f os)) = {}"
    by (simp add: getNewOrderForCurrentUser_def split: list.splits)
  then show ?thesis
    by (auto simp: set_sort_createdAt_desc OrderModel_find_def matches_def filter_empty_conv)
qed

lemma getNewOrderForCurrentUser_Some:
  assumes "getNewOrderForCurrentUser os req = Some x"
  shows "x \<in> set os \<and> o_user x = c_id (req_user req) \<and> o_status x = OrderStatus_NEW \<and>
         (\<forall>y. y \<in> set os \<and> o_user y = c_id (req_user req) \<and> o_status y = OrderStatus_NEW
              \<longrightarrow> o_createdAt y \<le> o_createdAt x)"
proof -
  let ?f = "\<lparr> f_id = None, f_user = Some (c_id (req_user req)), f_status = Some OrderStatus_NEW \<rparr>"
  let ?l = "sort_createdAt_desc (OrderModel_find ?f os)"
  from assms obtain r where l: "?l = x # r"
    by (auto simp: getNewOrderForCurrentUser_def split: list.splits)
  have s: "set ?l = {y \<in> set os. o_user y = c_id (req_user req) \<and> o_status y = OrderStatus_NEW}"
    by (auto simp: set_sort_createdAt_desc OrderModel_find_def matches_def)
  have "sorted_wrt (\<lambda>a b. o_createdAt b \<le> o_createdAt a) ?l"
    by (rule sorted_sort_createdAt_desc)
  with l have le: "\<forall>y\<in>set r. o_createdAt y \<le> o_createdAt x" by simp
  have mem: "x \<in> set ?l" using l by simp
  have all: "\<And>y. y \<in> set ?l \<Longrightarrow> o_createdAt y \<le> o_createdAt x"
    using l le by auto
  from mem all show ?thesis unfolding s by blast
qed

lemma pay_no_new_order:
  "\<not> (\<exists>y. y \<in> set (orders st) \<and> o_user y = c_id (req_user req) \<and> o_status y = OrderStatus_NEW)
   \<Longrightarrow> pay st req = (StatusSend BAD_REQUEST (Text ''Order Not Found!''), st)"
  using getNewOrderForCurrentUser_None[of "orders st" req] by (simp add: pay_def)

lemma pay_selected:
  "getNewOrderForCurrentUser (orders st) req = Some x \<Longrightarrow>
   pay st req = (Send (IdDoc (o_id x)),
                 st\<lparr>orders := save_order (orders st)
                     (x\<lparr>o_paymentId := Some (pb_paymentId (req_body req)),
                        o_status := OrderStatus_PAYED\<rparr>)\<rparr>)"
  by (simp add: pay_def)

text \<open>
  C1. The handler on the sample store, for the caller with two \<open>NEW\<close> orders: the more
  recent one (id 11) gets the payment token, and the status written is the \<open>PAYED\<close> key,
  not \<open>PAID\<close>; listing the caller's orders of status \<open>PAID\<close> afterwards returns
  nothing.
\<close>

theorem pay_marks_PAYED:
  "pay ex_db (ex_req 1 () \<lparr>pb_paymentId = ''tok123''\<rparr>)
     = (Send (IdDoc 11),
        ex_db\<lparr>orders := [ex_order 10 1 ''NEW'' 100,
                          (ex_order 11 1 ''PAYED'' 200)\<lparr>o_paymentId := Some ''tok123''\<rparr>,
                          ex_order 12 2 ''PAID'' 150, ex_order 13 2 ''FAILED'' 50]\<rparr>) \<and>
   OrderStatus_PAYED \<noteq> OrderStatus_PAID \<and>
   get_orders (snd (pay ex_db (ex_req 1 () \<lparr>pb_paymentId = ''tok123''\<rparr>)))
       (ex_req 1 (Some OrderStatus_PAID) ())
     = Send (OrderDocs [])"
  by (simp add: pay_def getNewOrderForCurrentUser_def OrderModel_find_def matches_def
      sort_createdAt_desc_def get_orders_def list_filter_def UserModel_findById_def ex_defs)

section \<open>Fetch order by id\<close>

lemma order_by_id_found:
  "find_order (orders st) (req_params req) = Some x \<Longrightarrow> order_by_id st req = Send (OrderDoc x)"
  by (simp add: order_by_id_def getOrder_def OrderModel_findById_def)

lemma order_by_id_missing:
  "find_order (orders st) (req_params req) = None \<Longrightarrow>
   order_by_id st req = StatusSend 500 (Text ''Internal Server Error'')"
  by (simp add: order_by_id_def getOrder_def OrderModel_findById_def)

text \<open>
  C7. The handler on an id that no stored order has: the first lookup finds nothing, the
  second is given the request object and fails in the store, and the answer is status
  500 with \<open>Internal Server Error\<close>, not the empty answer of status 400.
\<close>

theorem order_by_id_missing_is_500:
  "find_order (orders ex_db) 77 = None \<and>
   order_by_id ex_db (ex_req 1 77 ()) = StatusSend 500 (Text ''Internal Server Error'') \<and>
   order_by_id ex_db (ex_req 1 77 ()) \<noteq> StatusSend BAD_REQUEST Empty"
  by (simp add: order_by_id_def getOrder_def OrderModel_findById_def ex_defs)

section \<open>Register\<close>

lemma lower_ex: "toLowerCase ''Ann@X.io'' = ''ann@x.io''"
  by code_simp

text \<open>
  What holds of the handler: an exact match is refused with status 400 and the store is
  unchanged; when no stored email matches case-insensitively, one user is created and
  its stored email is the lower-cased one.
\<close>

lemma toLowerCase_char_idem: "toLowerCase_char (toLowerCase_char c) = toLowerCase_char c"
  by (auto simp: toLowerCase_char_def Let_def)

lemma toLowerCase_idem: "toLowerCase (toLowerCase s) = toLowerCase s"
  by (simp add: toLowerCase_def toLowerCase_char_idem)

lemma register_existing_exact:
  "UserModel_findOne_email (users st) (rb_email body) = Some usr \<Longrightarrow>
   register hash uq st body
     = (StatusSend BAD_REQUEST (Text ''User already exists, please login!''), st)"
  by (simp add: register_def)

lemma register_fresh_email:
  assumes "\<not> (\<exists>u. u \<in> set (users st) \<and> toLowerCase (u_email u) = toLowerCase (rb_email body))"
  shows "\<exists>u. register hash uq st body
              = (Send (Token (generateTokenResponse u)), st\<lparr>users := users st @ [u]\<rparr>) \<and>
            u_email u = toLowerCase (rb_email body)"
proof -
  have none: "UserModel_findOne_email (users st) (rb_email body) = None"
    using assms by (auto simp: UserModel_findOne_email_def find_None_iff)
  have fresh: "toLowerCase (rb_email body) \<notin> set (map u_email (users st))"
  proof
    assume "toLowerCase (rb_email body) \<in> set (map u_email (users st))"
    then obtain u where "u \<in> set (users st)" "u_email u = toLowerCase (rb_email body)" by auto
    then have "u \<in> set (users st) \<and> toLowerCase (u_email u) = toLowerCase (rb_email body)"
      by (simp add: toLowerCase_idem)
    with assms show False by blast
  qed
  let ?u = "\<lparr> u_id = new_object_id (map u_id (users st)),
              u_email = toLowerCase (rb_email body),
              u_password = hash (rb_password body) PASSWORD_HASH_SALT_ROUNDS,
              u_name = rb_name body, u_address = rb_address body,
              u_isAdmin = False, u_isBlocked = False \<rparr>"
  have "register hash uq st body
          = (Send (Token (generateTokenResponse ?u)), st\<lparr>users := users st @ [?u]\<rparr>)"
    using none fresh by (simp add: register_def UserModel_create_def Let_def)
  moreover have "u_email ?u = toLowerCase (rb_email body)" by simp
  ultimately show ?thesis by blast
qed

text \<open>
  C9. Registration with \<open>Ann@X.io\<close> while a user with \<open>ann@x.io\<close> is stored. The lookup
  compares the email as sent and finds no one. Without a unique index a second user with
  the stored email \<open>ann@x.io\<close> is created; with the index the store refuses the insert
  and the exception leaves the handler. In neither case is the answer the status 400 of
  an existing user.
\<close>

theorem register_case_variant_email:
  "UserModel_findOne_email (users ex_db) ''ann@x.io'' = Some (ex_user 1 ''ann@x.io'' False) \<and>
   toLowerCase (rb_email ex_register) = ''ann@x.io'' \<and>
   register hash False ex_db ex_register
     = (Send (Token (generateTokenResponse
                      \<lparr> u_id = 4, u_email = ''ann@x.io'', u_password = hash ''pw'' 10,
                        u_name = ''Ann'', u_address = ''x'', u_isAdmin = False,
                        u_isBlocked = False \<rparr>)),
        ex_db\<lparr>users := users ex_db @
                 [\<lparr> u_id = 4, u_email = ''ann@x.io'', u_password = hash ''pw'' 10,
                    u_name = ''Ann'', u_address = ''x'', u_isAdmin = False,
                    u_isBlocked = False \<rparr>]\<rparr>) \<and>
   register hash True ex_db ex_register = (Thrown DuplicateKey, ex_db)"
  by (simp add: register_def UserModel_findOne_email_def UserModel_create_def
      new_object_id_def PASSWORD_HASH_SALT_ROUNDS_def ex_register_def lower_ex ex_defs Let_def generateTokenResponse_def)

end
